theory Spec2Isabelle
  imports Main
begin

section \<open>Practice problems: data structures, conditionals and loops\<close>

text \<open>
  The notebook \<open>practice-problems/Data Structures Conditionals and Loops.ipynb\<close> is
  embedded here: its loops as recursive functions over Python's unbounded integers
  (\<open>int\<close>), strings (\<open>string\<close>) and insertion-ordered dictionaries (association
  lists), its code cells as functions on the kernel's namespace.
\<close>

subsection \<open>Built-ins\<close>

text \<open>
  \<^verbatim>\<open>range(a, b)\<close> is the list of the integers \<open>a, a + 1, ..., b - 1\<close>; it is empty
  when \<open>b \<le> a\<close>.
\<close>

definition range_py :: "int \<Rightarrow> int \<Rightarrow> int list" where
  "range_py a b = [a..b - 1]"

text \<open>
  A \<^verbatim>\<open>dict\<close> keeps its keys in insertion order. \<^verbatim>\<open>d[k] = v\<close> replaces the value
  of a key that is present, where it stands, and adds a key that is absent at the end.
\<close>

primrec setitem :: "('k \<times> 'v) list \<Rightarrow> 'k \<Rightarrow> 'v \<Rightarrow> ('k \<times> 'v) list" where
  "setitem [] k v = [(k, v)]"
| "setitem (p # ps) k v = (if fst p = k then (k, v) # ps else p # setitem ps k v)"

subsection \<open>Problems 3 and 4: the first multiples of a number\<close>

text \<open>
  \<^verbatim>\<open>
  multiples_loop = []
  for i in range(1,21):
      multiples_loop.append(3*i)
  \<close>
  and
  \<^verbatim>\<open>
  multiples = [7*i for i in range(1,21)]
  \<close>
  with the multiplier \<open>m\<close> (3 and 7 in the notebook) and the count \<open>n\<close> (20 in the
  notebook, as \<^verbatim>\<open>range(1, n+1)\<close>) as parameters. The accumulator of the fold is the
  list \<^verbatim>\<open>multiples_loop\<close>, \<^verbatim>\<open>append\<close> adds at its end.
\<close>

definition multiples_loop :: "int \<Rightarrow> int \<Rightarrow> int list" where
  "multiples_loop m n = foldl (\<lambda>acc i. acc @ [m * i]) [] (range_py 1 (n + 1))"

definition multiples :: "int \<Rightarrow> int \<Rightarrow> int list" where
  "multiples m n = [m * i. i \<leftarrow> range_py 1 (n + 1)]"

subsection \<open>More advanced problem 3: counting words\<close>

definition sample_words :: "string list" where
  "sample_words =
    [''apple'', ''banana'', ''apple'', ''computer'', ''computer'',
     ''programming'', ''language'', ''Obama'', ''Bush'', ''Trump'',
     ''Eisenhower'', ''president'', ''president'', ''president'',
     ''president'', ''dog'', ''dog'', ''cat'', ''duck'', ''duck'', ''goose'',
     ''baseball'', ''basketball'', ''football'', ''hockey'', ''soccer'',
     ''sports'', ''lebron'', ''james'', ''darius'', ''garland'']"

text \<open>
  The body of the loop,
  \<^verbatim>\<open>
  if word in my_dict.keys():
      my_dict[word]=my_dict[word]+1
  else:
      my_dict[word]=1
  \<close>
  The membership test and the read \<^verbatim>\<open>my_dict[word]\<close> look the same key up in the
  same dictionary, so they are one lookup here: \<open>Some c\<close> is the branch where the key
  is present and \<open>c\<close> the value read, \<open>None\<close> the \<^verbatim>\<open>else\<close> branch.
\<close>

definition my_dict_body :: "(string \<times> int) list \<Rightarrow> string \<Rightarrow> (string \<times> int) list" where
  "my_dict_body my_dict word =
    (case map_of my_dict word of
       Some c \<Rightarrow> setitem my_dict word (c + 1)
     | None \<Rightarrow> setitem my_dict word 1)"

text \<open>
  \<^verbatim>\<open>
  my_dict={}
  for word in sample_words:
      ...
  \<close>
  with the list of words as a parameter.
\<close>

definition my_dict_loop :: "string list \<Rightarrow> (string \<times> int) list" where
  "my_dict_loop ws = foldl my_dict_body [] ws"

subsection \<open>More advanced problem 4: a walk on the integers\<close>

definition steps :: "int list" where
  "steps = [-1,1,1,-1,-1,1,1,1,-1,-1,-1,-1,-1,1,-1,1,-1,1,1,1,-1,-1,1,1,-1,-1]"

text \<open>
  \<^verbatim>\<open>
  position = 0
  for i in steps:
      print(position)
      position = position + i
  \<close>
  The state of the loop is the pair of what has been printed so far (one value a line,
  the integer passed to \<^verbatim>\<open>print\<close>) and \<^verbatim>\<open>position\<close>.
\<close>

definition position_body :: "int list \<times> int \<Rightarrow> int \<Rightarrow> int list \<times> int" where
  "position_body s i = (case s of (printed, position) \<Rightarrow> (printed @ [position], position + i))"

definition position_loop :: "int list \<Rightarrow> int list \<times> int" where
  "position_loop xs = foldl position_body ([], 0) xs"

subsection \<open>The kernel's namespace and the code cells\<close>
















section \<open>Properties\<close>

subsection \<open>The two constructions of the multiples\<close>

lemma foldl_append_single:
  "foldl (\<lambda>acc i. acc @ [f i]) acc xs = acc @ map f xs"
  by (induction xs arbitrary: acc) simp_all

lemma multiples_3_20:
  "multiples_loop 3 20 =
    [3, 6, 9, 12, 15, 18, 21, 24, 27, 30, 33, 36, 39, 42, 45, 48, 51, 54, 57, 60]"
  by (simp add: multiples_loop_def range_py_def upto_rec1)

lemma multiples_7_20:
  "multiples 7 20 =
    [7, 14, 21, 28, 35, 42, 49, 56, 63, 70, 77, 84, 91, 98, 105, 112, 119, 126, 133, 140]"
  by (simp add: multiples_def range_py_def upto_rec1)

text \<open>
  C10. For every multiplier \<open>m\<close> and count \<open>n\<close>, the \<^verbatim>\<open>for\<close> loop that appends
  \<open>m * i\<close> for \<open>i\<close> in \<^verbatim>\<open>range(1, n+1)\<close> to an empty list and the comprehension
  \<^verbatim>\<open>[m*i for i in range(1, n+1)]\<close> give the same list; for a count \<open>n \<ge> 0\<close> it has
  length \<open>n\<close>, and its \<open>k\<close>-th element, counted from 1, is \<open>m * k\<close>. The notebook's
  two cells, with \<open>m = 3\<close> and \<open>m = 7\<close> and \<open>n = 20\<close>, show the lists recorded there.
\<close>

theorem multiples_loop_eq_multiples:
  "multiples_loop m n = multiples m n
   \<and> (0 \<le> n \<longrightarrow> int (length (multiples m n)) = n)
   \<and> (\<forall>k. 1 \<le> k \<and> k \<le> n \<longrightarrow> multiples m n ! nat (k - 1) = m * k)
   \<and> multiples_loop 3 20 =
       [3, 6, 9, 12, 15, 18, 21, 24, 27, 30, 33, 36, 39, 42, 45, 48, 51, 54, 57, 60]
   \<and> multiples 7 20 =
       [7, 14, 21, 28, 35, 42, 49, 56, 63, 70, 77, 84, 91, 98, 105, 112, 119, 126, 133, 140]"
proof -
  have eq: "multiples_loop m n = multiples m n"
    by (simp add: multiples_loop_def multiples_def foldl_append_single)
  have len: "0 \<le> n \<longrightarrow> int (length (multiples m n)) = n"
    by (simp add: multiples_def range_py_def)
  have nth: "\<forall>k. 1 \<le> k \<and> k \<le> n \<longrightarrow> multiples m n ! nat (k - 1) = m * k"
    by (simp add: multiples_def range_py_def)
  from eq len nth multiples_3_20 multiples_7_20 show ?thesis
    by (intro conjI)
qed

theorem multiples_loop_eq_multiples_witness:
  "multiples_loop 3 20 = multiples 3 20
   \<and> (0::int) \<le> 20 \<and> int (length (multiples 3 20)) = 20
   \<and> (1::int) \<le> 5 \<and> (5::int) \<le> 20 \<and> multiples 3 20 ! nat (5 - 1) = 3 * 5"
proof -
  note t = multiples_loop_eq_multiples [of 3 20]
  from t have "(1::int) \<le> 5 \<and> (5::int) \<le> 20 \<longrightarrow> multiples 3 20 ! nat (5 - 1) = 3 * 5"
    by blast
  with t show ?thesis
    by simp
qed

subsection \<open>The walk: prefix sums\<close>

lemma position_body_pair: "position_body (printed, p) i = (printed @ [p], p + i)"
  by (simp add: position_body_def)

lemma prefix_sums_Cons:
  "map (\<lambda>k. p + sum_list (take k (x # xs))) [0..<length (x # xs)]
    = p # map (\<lambda>k. (p + x) + sum_list (take k xs)) [0..<length xs]"
proof -
  have "[0..<length (x # xs)] = 0 # map Suc [0..<length xs]"
    by (simp add: upt_conv_Cons map_Suc_upt del: upt_Suc)
  then show ?thesis
    by (simp add: comp_def add.assoc del: upt_Suc)
qed

lemma foldl_position_body:
  "foldl position_body (printed, p) xs =
    (printed @ map (\<lambda>k. p + sum_list (take k xs)) [0..<length xs], p + sum_list xs)"
proof (induction xs arbitrary: printed p)
  case Nil
  then show ?case by simp
next
  case (Cons x xs)
  have "foldl position_body (printed, p) (x # xs)
      = foldl position_body (printed @ [p], p + x) xs"
    by (simp add: position_body_pair)
  also have "\<dots> = ((printed @ [p]) @ map (\<lambda>k. (p + x) + sum_list (take k xs)) [0..<length xs],
      (p + x) + sum_list xs)"
    by (rule Cons.IH)
  also have "\<dots> = (printed @ map (\<lambda>k. p + sum_list (take k (x # xs))) [0..<length (x # xs)],
      p + sum_list (x # xs))"
    by (simp only: prefix_sums_Cons append_assoc append_Cons append_Nil sum_list.Cons add.assoc)
  finally show ?case .
qed

lemma position_loop_eq:
  "position_loop xs = (map (\<lambda>k. sum_list (take k xs)) [0..<length xs], sum_list xs)"
  by (simp add: position_loop_def foldl_position_body)

lemma position_loop_split:
  "position_loop xs = foldl position_body (position_loop (take k xs)) (drop k xs)"
proof -
  have "foldl position_body ([], 0) (take k xs @ drop k xs)
      = foldl position_body (foldl position_body ([], 0) (take k xs)) (drop k xs)"
    by (rule foldl_append)
  then show ?thesis
    by (simp add: position_loop_def)
qed

lemma position_loop_steps:
  "position_loop steps =
    ([0, -1, 0, 1, 0, -1, 0, 1, 2, 1, 0, -1, -2, -3, -2, -3, -2, -3, -2, -1, 0, -1, -2, -1, 0, -1],
     -2)"
  by (simp add: position_loop_def steps_def position_body_def)

text \<open>
  C9. With \<^verbatim>\<open>position\<close> initialised to 0, the loop over a list of integers prints, at
  the start of its \<open>k\<close>-th iteration (counted from 0), the sum of the first \<open>k\<close>
  elements, and ends with \<^verbatim>\<open>position\<close> equal to the sum of all of them. The state at
  the start of iteration \<open>k\<close> is the state that the loop over the first \<open>k\<close> elements
  ends in, and the rest of the loop goes on from there. For the notebook's list
  \<^verbatim>\<open>steps\<close>, of 26 elements, the final position is \<open>-2\<close>.
\<close>

theorem position_loop_prefix_sums:
  "fst (position_loop xs) = map (\<lambda>k. sum_list (take k xs)) [0..<length xs]
   \<and> (\<forall>k. k < length xs \<longrightarrow> fst (position_loop xs) ! k = sum_list (take k xs))
   \<and> (\<forall>k. position_loop xs = foldl position_body (position_loop (take k xs)) (drop k xs)
          \<and> snd (position_loop (take k xs)) = sum_list (take k xs))
   \<and> snd (position_loop xs) = sum_list xs
   \<and> length steps = 26
   \<and> snd (position_loop steps) = -2"
proof -
  have split: "\<forall>k. position_loop xs = foldl position_body (position_loop (take k xs)) (drop k xs)
      \<and> snd (position_loop (take k xs)) = sum_list (take k xs)"
    using position_loop_split [of xs] by (simp add: position_loop_eq)
  have len: "length steps = 26"
    by (simp add: steps_def)
  have final: "snd (position_loop steps) = -2"
    by (simp add: position_loop_steps)
  have printed: "fst (position_loop xs) = map (\<lambda>k. sum_list (take k xs)) [0..<length xs]"
    by (simp add: position_loop_eq)
  have nth: "\<forall>k. k < length xs \<longrightarrow> fst (position_loop xs) ! k = sum_list (take k xs)"
    by (simp add: position_loop_eq)
  have total: "snd (position_loop xs) = sum_list xs"
    by (simp add: position_loop_eq)
  from printed nth split total len final show ?thesis
    by (intro conjI)
qed

theorem position_loop_prefix_sums_witness:
  "(2::nat) < length [5, -3, 4 :: int]
   \<and> fst (position_loop [5, -3, 4]) ! 2 = sum_list (take 2 [5, -3, 4])
   \<and> fst (position_loop [5, -3, 4]) = [0, 5, 2]
   \<and> snd (position_loop [5, -3, 4]) = 6"
  using position_loop_prefix_sums [of "[5, -3, 4]"]
  by (simp add: upt_rec)

subsection \<open>The word count\<close>

lemma map_of_setitem: "map_of (setitem d k v) = (map_of d)(k \<mapsto> v)"
  by (induction d) auto

lemma keys_setitem: "fst ` set (setitem d k v) = insert k (fst ` set d)"
  by (induction d) auto

lemma distinct_setitem: "distinct (map fst d) \<Longrightarrow> distinct (map fst (setitem d k v))"
  by (induction d) (auto simp: keys_setitem)

lemma keys_my_dict_body: "fst ` set (my_dict_body d w) = insert w (fst ` set d)"
  by (simp add: my_dict_body_def keys_setitem split: option.split)

lemma distinct_my_dict_body:
  "distinct (map fst d) \<Longrightarrow> distinct (map fst (my_dict_body d w))"
  by (simp add: my_dict_body_def distinct_setitem split: option.split)

lemma map_of_my_dict_body:
  "map_of (my_dict_body d w) =
    (map_of d)(w \<mapsto> (case map_of d w of Some c \<Rightarrow> c + 1 | None \<Rightarrow> 1))"
  by (simp add: my_dict_body_def map_of_setitem split: option.split)

lemma keys_foldl_my_dict_body:
  "fst ` set (foldl my_dict_body d ws) = fst ` set d \<union> set ws"
  by (induction ws arbitrary: d) (auto simp: keys_my_dict_body)

lemma distinct_foldl_my_dict_body:
  "distinct (map fst d) \<Longrightarrow> distinct (map fst (foldl my_dict_body d ws))"
  by (induction ws arbitrary: d) (auto simp: distinct_my_dict_body)

text \<open>
  The loop started from any dictionary \<open>d\<close>: a key of \<open>d\<close> gains its number of
  occurrences, a new key gets it.
\<close>

lemma map_of_foldl_my_dict_body:
  "map_of (foldl my_dict_body d ws) w =
    (case map_of d w of
       Some c \<Rightarrow> Some (c + int (count_list ws w))
     | None \<Rightarrow> if w \<in> set ws then Some (int (count_list ws w)) else None)"
proof (induction ws arbitrary: d)
  case Nil
  then show ?case by (simp split: option.split)
next
  case (Cons x xs)
  show ?case
    by (simp add: Cons.IH map_of_my_dict_body split: option.split)
qed

lemma my_dict_loop_sample_words:
  "my_dict_loop sample_words =
    [(''apple'', 2), (''banana'', 1), (''computer'', 2), (''programming'', 1),
     (''language'', 1), (''Obama'', 1), (''Bush'', 1), (''Trump'', 1),
     (''Eisenhower'', 1), (''president'', 4), (''dog'', 2), (''cat'', 1),
     (''duck'', 2), (''goose'', 1), (''baseball'', 1), (''basketball'', 1),
     (''football'', 1), (''hockey'', 1), (''soccer'', 1), (''sports'', 1),
     (''lebron'', 1), (''james'', 1), (''darius'', 1), (''garland'', 1)]"
  by (simp add: my_dict_loop_def sample_words_def my_dict_body_def)

text \<open>
  C8. For every list of strings, the dictionary that the loop builds has exactly the
  distinct words of the list as its keys, each once, and maps each of them to the number
  of its occurrences in the list. For the notebook's \<^verbatim>\<open>sample_words\<close> it maps
  \<^verbatim>\<open>president\<close> to 4, \<^verbatim>\<open>apple\<close> and \<^verbatim>\<open>dog\<close> to 2 and \<^verbatim>\<open>banana\<close> to 1.
\<close>

theorem my_dict_loop_counts:
  "fst ` set (my_dict_loop ws) = set ws
   \<and> distinct (map fst (my_dict_loop ws))
   \<and> (\<forall>w. map_of (my_dict_loop ws) w =
          (if w \<in> set ws then Some (int (count_list ws w)) else None))
   \<and> map_of (my_dict_loop sample_words) ''president'' = Some 4
   \<and> map_of (my_dict_loop sample_words) ''apple'' = Some 2
   \<and> map_of (my_dict_loop sample_words) ''dog'' = Some 2
   \<and> map_of (my_dict_loop sample_words) ''banana'' = Some 1"
proof -
  have keys: "fst ` set (my_dict_loop ws) = set ws"
    by (simp add: my_dict_loop_def keys_foldl_my_dict_body)
  have dist: "distinct (map fst (my_dict_loop ws))"
    by (simp add: my_dict_loop_def distinct_foldl_my_dict_body)
  have vals: "\<forall>w. map_of (my_dict_loop ws) w =
      (if w \<in> set ws then Some (int (count_list ws w)) else None)"
    by (simp add: my_dict_loop_def map_of_foldl_my_dict_body)
  have p: "map_of (my_dict_loop sample_words) ''president'' = Some 4"
    by (simp add: my_dict_loop_sample_words)
  have a: "map_of (my_dict_loop sample_words) ''apple'' = Some 2"
    by (simp add: my_dict_loop_sample_words)
  have d: "map_of (my_dict_loop sample_words) ''dog'' = Some 2"
    by (simp add: my_dict_loop_sample_words)
  have b: "map_of (my_dict_loop sample_words) ''banana'' = Some 1"
    by (simp add: my_dict_loop_sample_words)
  from keys dist vals p a d b show ?thesis
    by (intro conjI)
qed

theorem my_dict_loop_counts_witness:
  "fst ` set (my_dict_loop [''b'', ''a'', ''b'']) = {''a'', ''b''}
   \<and> map_of (my_dict_loop [''b'', ''a'', ''b'']) ''b'' = Some 2
   \<and> map_of (my_dict_loop [''b'', ''a'', ''b'']) ''c'' = None"
  using my_dict_loop_counts [of "[''b'', ''a'', ''b'']"]
  by auto

subsection \<open>Cells and the namespace they share\<close>





end
